theory Spec2Isabelle
  imports Main "HOL-Library.Word"
begin

section \<open>The session protocol of secure-messaging-system.js\<close>

text \<open>
  The class \<open>SecureMessaging\<close> keeps its sessions in a \<open>Map\<close> from session identifiers
  to session objects and mutates these objects in place. The embedding passes the
  instance explicitly: every method takes the instance and returns the instance as it is
  when the call ends, also when the call ends with an exception, because a JavaScript
  \<open>throw\<close> does not undo earlier assignments.

  The functions of Node's \<open>crypto\<close> module, the text encodings of \<open>Buffer\<close> and
  \<open>JSON.stringify\<close> are not code of this repository. They are parameters of the model,
  collected in the record \<open>crypto\<close>; a call that may throw returns an \<open>option\<close>.
  \<open>crypto.randomBytes\<close> reads from an explicit random source.
\<close>

subsection \<open>Bytes, random source, encodings\<close>

type_synonym byte = "8 word"
type_synonym bytes = "byte list"

text \<open>The random source is an infinite sequence of bytes; \<open>randomBytes n\<close> takes the
  next \<open>n\<close> of them and leaves the rest.\<close>

type_synonym rng = "nat \<Rightarrow> byte"

definition randomBytes :: "nat \<Rightarrow> rng \<Rightarrow> bytes \<times> rng" where
  "randomBytes n g = (map g [0..<n], \<lambda>i. g (n + i))"

text \<open>\<open>Buffer.from(s)\<close> on an ASCII literal: one byte for each character.\<close>

definition buffer_from :: "string \<Rightarrow> bytes" where
  "buffer_from s = map (\<lambda>c. of_nat (of_char c)) s"

text \<open>\<open>buf.slice(a, b)\<close>: the bytes from index \<open>a\<close> up to, not including, index \<open>b\<close>,
  clipped to the length of the buffer.\<close>

definition slice :: "nat \<Rightarrow> nat \<Rightarrow> bytes \<Rightarrow> bytes" where
  "slice a b buf = take (b - a) (drop a buf)"

text \<open>\<open>buf.toString('hex')\<close>: two lower-case hexadecimal digits for each byte.\<close>

definition hex_digit :: "nat \<Rightarrow> char" where
  "hex_digit d = (if d < 10 then char_of (48 + d) else char_of (87 + d))"

definition to_hex :: "bytes \<Rightarrow> string" where
  "to_hex buf = concat (map (\<lambda>b. [hex_digit (unat b div 16), hex_digit (unat b mod 16)]) buf)"

subsection \<open>Data\<close>

record keyPair =
  publicKey :: string
  privateKey :: string

text \<open>A session object as \<open>establishSession\<close> creates it.\<close>

record session =
  recipientId :: string
  encryptionKey :: bytes
  macKey :: bytes
  chainKey :: bytes
  messageCounter :: nat

text \<open>The fields of a \<open>SecureMessaging\<close> instance. Its own \<open>messageCounter\<close>, here
  \<open>instanceCounter\<close>, is set to 0 by the constructor and never used again.\<close>

record secureMessaging =
  identityKeyPair :: "keyPair option"
  preKeyPair :: "keyPair option"
  oneTimePreKeys :: "keyPair list"
  sessionKeys :: "string \<rightharpoonup> session"
  instanceCounter :: nat

text \<open>
  A message package. \<open>encryptMessage\<close> builds it with the properties \<open>sessionId\<close>,
  \<open>counter\<close>, \<open>iv\<close>, \<open>ciphertext\<close> and then \<open>mac\<close>; \<open>mac = None\<close> is a package whose
  \<open>mac\<close> property is absent or \<open>undefined\<close>. \<open>extra\<close> holds any further properties
  of the object (name and value, in order), such as the \<open>sender\<close>, \<open>recipient\<close> and
  \<open>timestamp\<close> that the client adds before sending.
\<close>

record messagePackage =
  sessionId :: string
  counter :: nat
  iv :: string
  ciphertext :: string
  mac :: "string option"
  extra :: "(string \<times> string) list"

text \<open>
  The first argument of \<open>sign\<close> and \<open>verify\<close> is used as it is when it is a string and
  passed through \<open>JSON.stringify\<close> otherwise. A value that is not a string matters only
  through what \<open>JSON.stringify\<close> makes of it: a text, \<open>undefined\<close> (for \<open>undefined\<close>,
  a function or a symbol), or an exception (for a BigInt or a cyclic object).
\<close>

datatype stringified = Json_text string | Json_undefined | Json_throws

datatype jsdata = Is_string string | Not_string stringified

record registrationBundle =
  userId :: string
  identityKey :: string
  preKey :: jsdata
  bundleOneTimePreKeys :: "string list"
  signature :: string

text \<open>The exceptions, named after their messages. \<open>Library_exception\<close> stands for any
  exception thrown by Node itself (a \<open>TypeError\<close> for an argument of the wrong type, an
  OpenSSL error for a key or initialisation vector of the wrong length or a bad padding).\<close>

datatype error =
    Client_not_initialized
  | Invalid_signature_on_recipient_bundle
  | Session_not_found
  | Potential_replay_attack_detected
  | Message_authentication_failed
  | Library_exception

subsection \<open>The primitives\<close>

text \<open>
  \<^item> \<open>sha256 d\<close>: \<open>createHash('sha256').update(d).digest()\<close>;
  \<^item> \<open>hmac_sha256 k d\<close>: \<open>createHmac('sha256', k).update(d).digest()\<close>;
  \<^item> \<open>aes_128_cbc_encrypt k v p\<close>: \<open>createCipheriv('aes-128-cbc', k, v)\<close>, \<open>update\<close> and
    \<open>final\<close> on the plaintext bytes \<open>p\<close>; \<open>None\<close> when Node throws (a key or an
    initialisation vector it does not accept);
  \<^item> \<open>aes_128_cbc_decrypt k v c\<close>: \<open>createDecipheriv\<close>, \<open>update\<close> and \<open>final\<close>;
    \<open>None\<close> when Node throws (also for a bad padding);
  \<^item> \<open>rsa_sha256_sign key text\<close>: \<open>createSign('SHA256')\<close> on \<open>text\<close>, signature
    in base64; \<open>None\<close> when \<open>sign.sign\<close> throws;
  \<^item> \<open>rsa_sha256_verify key sig text\<close>: \<open>createVerify('SHA256')\<close> on \<open>text\<close>, then
    \<open>verify.verify(key, sig, 'base64')\<close>; \<open>None\<close> when it throws;
  \<^item> \<open>utf8_encode\<close>, \<open>utf8_decode\<close>, \<open>base64_encode\<close>, \<open>base64_decode\<close>: the
    encodings \<open>'utf8'\<close> and \<open>'base64'\<close> of \<open>Buffer\<close>, from and to text;
  \<^item> \<open>json_stringify\<close>: \<open>JSON.stringify\<close> on a message package, which leaves out a
    property whose value is \<open>undefined\<close>.
\<close>

record crypto =
  sha256 :: "bytes \<Rightarrow> bytes"
  hmac_sha256 :: "bytes \<Rightarrow> bytes \<Rightarrow> bytes"
  aes_128_cbc_encrypt :: "bytes \<Rightarrow> bytes \<Rightarrow> bytes \<Rightarrow> bytes option"
  aes_128_cbc_decrypt :: "bytes \<Rightarrow> bytes \<Rightarrow> bytes \<Rightarrow> bytes option"
  rsa_sha256_sign :: "string \<Rightarrow> string \<Rightarrow> string option"
  rsa_sha256_verify :: "string \<Rightarrow> string \<Rightarrow> string \<Rightarrow> bool option"
  utf8_encode :: "string \<Rightarrow> bytes"
  utf8_decode :: "bytes \<Rightarrow> string"
  base64_encode :: "bytes \<Rightarrow> string"
  base64_decode :: "string \<Rightarrow> bytes"
  json_stringify :: "messagePackage \<Rightarrow> string"

subsection \<open>Signing and verifying\<close>

text \<open>\<open>typeof data === 'string' ? data : JSON.stringify(data)\<close>, then \<open>update\<close>, which
  throws a \<open>TypeError\<close> on \<open>undefined\<close>. Both happen outside any \<open>try\<close>.\<close>

definition update_argument :: "jsdata \<Rightarrow> error + string" where
  "update_argument d =
     (case d of
        Is_string s \<Rightarrow> Inr s
      | Not_string (Json_text s) \<Rightarrow> Inr s
      | Not_string Json_undefined \<Rightarrow> Inl Library_exception
      | Not_string Json_throws \<Rightarrow> Inl Library_exception)"

definition sign :: "crypto \<Rightarrow> jsdata \<Rightarrow> string \<Rightarrow> error + string" where
  "sign P d key =
     (case update_argument d of
        Inl e \<Rightarrow> Inl e
      | Inr text \<Rightarrow>
          (case rsa_sha256_sign P key text of
             None \<Rightarrow> Inl Library_exception
           | Some sg \<Rightarrow> Inr sg))"

definition verify :: "crypto \<Rightarrow> jsdata \<Rightarrow> string \<Rightarrow> string \<Rightarrow> error + bool" where
  "verify P d sg key =
     (case update_argument d of
        Inl e \<Rightarrow> Inl e
      | Inr text \<Rightarrow>
          (case rsa_sha256_verify P key sg text of
             None \<Rightarrow> Inr False
           | Some b \<Rightarrow> Inr b))"

text \<open>\<open>register\<close> fails when there is no identity key pair, and reads the public key of
  the prekey pair, which throws a \<open>TypeError\<close> when that pair is \<open>null\<close>.\<close>

definition register :: "crypto \<Rightarrow> secureMessaging \<Rightarrow> string \<Rightarrow> error + registrationBundle" where
  "register P this uid =
     (case identityKeyPair this of
        None \<Rightarrow> Inl Client_not_initialized
      | Some ik \<Rightarrow>
          (case preKeyPair this of
             None \<Rightarrow> Inl Library_exception
           | Some pk \<Rightarrow>
               (case sign P (Is_string (publicKey pk)) (privateKey ik) of
                  Inl e \<Rightarrow> Inl e
                | Inr sg \<Rightarrow>
                    Inr \<lparr>userId = uid,
                         identityKey = publicKey ik,
                         preKey = Is_string (publicKey pk),
                         bundleOneTimePreKeys = map publicKey (oneTimePreKeys this),
                         signature = sg\<rparr>)))"

subsection \<open>Key derivation and the ratchet\<close>

definition deriveKeys :: "crypto \<Rightarrow> bytes \<Rightarrow> bytes \<times> bytes \<times> bytes" where
  "deriveKeys P masterSecret =
     (let hash1 = sha256 P (masterSecret @ buffer_from ''encryption'');
          hash2 = sha256 P (masterSecret @ buffer_from ''mac'');
          hash3 = sha256 P (masterSecret @ buffer_from ''chain'')
      in (slice 0 16 hash1, slice 0 16 hash2, slice 0 16 hash3))"

text \<open>The assignments of \<open>updateChainKey\<close> to one session object.\<close>

definition ratchet :: "crypto \<Rightarrow> session \<Rightarrow> session" where
  "ratchet P s =
     (let newKeyMaterial = hmac_sha256 P (buffer_from ''RatchetStep'') (chainKey s)
      in s\<lparr>encryptionKey := slice 0 16 newKeyMaterial,
           macKey := slice 16 32 newKeyMaterial,
           chainKey := slice 0 16 newKeyMaterial\<rparr>)"

definition updateChainKey :: "crypto \<Rightarrow> secureMessaging \<Rightarrow> string \<Rightarrow> (error + unit) \<times> secureMessaging" where
  "updateChainKey P this sid =
     (case sessionKeys this sid of
        None \<Rightarrow> (Inl Session_not_found, this)
      | Some s \<Rightarrow> (Inr (), this\<lparr>sessionKeys := (sessionKeys this)(sid \<mapsto> ratchet P s)\<rparr>))"

subsection \<open>Establishing a session\<close>

definition generateRandomId :: "rng \<Rightarrow> string \<times> rng" where
  "generateRandomId g = (let (buf, g') = randomBytes 16 g in (to_hex buf, g'))"

text \<open>\<open>recipientBundle.oneTimePreKeys[0]\<close> is \<open>undefined\<close> on an empty list.\<close>

definition first_or_undefined :: "'a list \<Rightarrow> 'a option" where
  "first_or_undefined xs = (case xs of [] \<Rightarrow> None | x # _ \<Rightarrow> Some x)"

definition establishSession ::
  "crypto \<Rightarrow> secureMessaging \<Rightarrow> string \<Rightarrow> registrationBundle \<Rightarrow> rng \<Rightarrow> (error + string) \<times> secureMessaging \<times> rng" where
  "establishSession P this rid recipientBundle g =
     (case verify P (preKey recipientBundle) (signature recipientBundle) (identityKey recipientBundle) of
        Inl e \<Rightarrow> (Inl e, this, g)
      | Inr isValid \<Rightarrow>
          if \<not> isValid then (Inl Invalid_signature_on_recipient_bundle, this, g)
          else
            (let selectedOneTimePreKey = first_or_undefined (bundleOneTimePreKeys recipientBundle);
                 (sharedSecret, g1) = randomBytes 32 g;
                 (rid16, g2) = generateRandomId g1;
                 sid = rid16 @ ''-'' @ rid;
                 (ek, mk, ck) = deriveKeys P sharedSecret
             in (Inr sid,
                 this\<lparr>sessionKeys := (sessionKeys this)(sid \<mapsto>
                       \<lparr>recipientId = rid, encryptionKey = ek, macKey = mk, chainKey = ck,
                        messageCounter = 0\<rparr>)\<rparr>,
                 g2)))"

subsection \<open>Encrypting and decrypting\<close>

definition calculateMAC :: "crypto \<Rightarrow> messagePackage \<Rightarrow> bytes \<Rightarrow> string" where
  "calculateMAC P pkg key = base64_encode P (hmac_sha256 P key (utf8_encode P (json_stringify P pkg)))"

text \<open>
  \<open>encryptMessage\<close> increments the counter of the session object first; the object is
  the one stored in the map, so the increment is in the instance from then on, whatever
  happens later in the call.
\<close>

definition encryptMessage ::
  "crypto \<Rightarrow> secureMessaging \<Rightarrow> string \<Rightarrow> string \<Rightarrow> rng \<Rightarrow> (error + messagePackage) \<times> secureMessaging \<times> rng" where
  "encryptMessage P this sid message g =
     (case sessionKeys this sid of
        None \<Rightarrow> (Inl Session_not_found, this, g)
      | Some s0 \<Rightarrow>
          (let s = s0\<lparr>messageCounter := messageCounter s0 + 1\<rparr>;
               this1 = this\<lparr>sessionKeys := (sessionKeys this)(sid \<mapsto> s)\<rparr>;
               (ivb, g1) = randomBytes 16 g
           in case aes_128_cbc_encrypt P (encryptionKey s) ivb (utf8_encode P message) of
                None \<Rightarrow> (Inl Library_exception, this1, g1)
              | Some encrypted \<Rightarrow>
                  (let pkg = \<lparr>sessionId = sid, counter = messageCounter s,
                              iv = base64_encode P ivb, ciphertext = base64_encode P encrypted,
                              mac = None, extra = []\<rparr>;
                       m = calculateMAC P pkg (macKey s);
                       pkg' = pkg\<lparr>mac := Some m\<rparr>
                   in case updateChainKey P this1 sid of
                        (Inl e, this2) \<Rightarrow> (Inl e, this2, g1)
                      | (Inr u, this2) \<Rightarrow> (Inr pkg', this2, g1))))"

definition decryptMessage ::
  "crypto \<Rightarrow> secureMessaging \<Rightarrow> messagePackage \<Rightarrow> (error + string) \<times> secureMessaging" where
  "decryptMessage P this pkg =
     (case sessionKeys this (sessionId pkg) of
        None \<Rightarrow> (Inl Session_not_found, this)
      | Some s \<Rightarrow>
          if counter pkg \<le> messageCounter s then (Inl Potential_replay_attack_detected, this)
          else
            (let providedMac = mac pkg;
                 calculatedMac = calculateMAC P (pkg\<lparr>mac := None\<rparr>) (macKey s)
             in if providedMac \<noteq> Some calculatedMac then (Inl Message_authentication_failed, this)
                else
                  (case aes_128_cbc_decrypt P (encryptionKey s) (base64_decode P (iv pkg))
                          (base64_decode P (ciphertext pkg)) of
                     None \<Rightarrow> (Inl Library_exception, this)
                   | Some decrypted \<Rightarrow>
                       (let s' = s\<lparr>messageCounter := counter pkg\<rparr>;
                            this1 = this\<lparr>sessionKeys := (sessionKeys this)(sessionId pkg \<mapsto> s')\<rparr>
                        in case updateChainKey P this1 (sessionId pkg) of
                             (Inl e, this2) \<Rightarrow> (Inl e, this2)
                           | (Inr u, this2) \<Rightarrow> (Inr (utf8_decode P decrypted), this2)))))"

subsection \<open>Sequences of calls\<close>


subsection \<open>A small instance of the primitives\<close>

text \<open>
  Concrete functions in the place of the primitives, simple enough to evaluate the
  definitions above on concrete inputs. They have the shape of the real ones (digests of
  32 bytes, a cipher that needs 16 bytes of key and of initialisation vector and that
  its decryption inverts, encodings that are inverse to each other) and none of their
  strength.
\<close>

definition sample_sha256 :: "bytes \<Rightarrow> bytes" where
  "sample_sha256 d = take 32 (rev d @ replicate 32 0)"

definition sample_encrypt :: "bytes \<Rightarrow> bytes \<Rightarrow> bytes \<Rightarrow> bytes option" where
  "sample_encrypt k v p =
     (if length k = 16 \<and> length v = 16 then Some (map (\<lambda>b. b + hd k + hd v) p) else None)"

definition sample_decrypt :: "bytes \<Rightarrow> bytes \<Rightarrow> bytes \<Rightarrow> bytes option" where
  "sample_decrypt k v c =
     (if length k = 16 \<and> length v = 16 then Some (map (\<lambda>b. b - hd v - hd k) c) else None)"

definition to_text :: "bytes \<Rightarrow> string" where
  "to_text buf = map (\<lambda>b. char_of (unat b)) buf"

definition sample_json :: "messagePackage \<Rightarrow> string" where
  "sample_json p =
     sessionId p @ ''|'' @ replicate (counter p) CHR ''#'' @ ''|'' @ iv p @ ''|'' @ ciphertext p
     @ (case mac p of None \<Rightarrow> [] | Some m \<Rightarrow> ''|'' @ m)
     @ concat (map (\<lambda>(k, v). ''|'' @ k @ ''='' @ v) (extra p))"

definition sample_crypto :: crypto where
  "sample_crypto = \<lparr>
     sha256 = sample_sha256,
     hmac_sha256 = (\<lambda>k d. sample_sha256 (k @ d)),
     aes_128_cbc_encrypt = sample_encrypt,
     aes_128_cbc_decrypt = sample_decrypt,
     rsa_sha256_sign = (\<lambda>key text. if key = [] then None else Some (text @ ''~'' @ drop 4 key)),
     rsa_sha256_verify =
       (\<lambda>key sg text. if key = [] then None else Some (sg = text @ ''~'' @ drop 4 key)),
     utf8_encode = buffer_from,
     utf8_decode = to_text,
     base64_encode = to_text,
     base64_decode = buffer_from,
     json_stringify = sample_json\<rparr>"

text \<open>An instance holding one session, and the package that \<open>encryptMessage\<close> makes of
  the message \<open>hi\<close> on it when every random byte is 9.\<close>

definition sample_session :: session where
  "sample_session = \<lparr>recipientId = ''bob'', encryptionKey = replicate 16 1,
     macKey = replicate 16 2, chainKey = replicate 16 3, messageCounter = 0\<rparr>"

definition sample_instance :: secureMessaging where
  "sample_instance = \<lparr>identityKeyPair = None, preKeyPair = None, oneTimePreKeys = [],
     sessionKeys = [''s1'' \<mapsto> sample_session], instanceCounter = 0\<rparr>"

definition sample_package :: messagePackage where
  "sample_package = \<lparr>sessionId = ''s1'', counter = 1, iv = replicate 16 (CHR 0x09),
     ciphertext = ''rs'',
     mac = Some (''sr|'' @ replicate 16 (CHR 0x09) @ ''|#|1s'' @ replicate 8 (CHR 0x02)),
     extra = []\<rparr>"

text \<open>A package for the same session whose counter is 5: four counters are skipped.\<close>

definition gap_package :: messagePackage where
  "gap_package = \<lparr>sessionId = ''s1'', counter = 5, iv = replicate 16 (CHR 0x09),
     ciphertext = ''rs'',
     mac = Some (''sr|'' @ replicate 16 (CHR 0x09) @ ''|'' @ replicate 5 (CHR ''#'') @ ''|1s''
       @ replicate 4 (CHR 0x02)),
     extra = []\<rparr>"


text \<open>Two initialised instances and the bundles that \<open>register\<close> makes of them.\<close>

definition alice :: secureMessaging where
  "alice = \<lparr>identityKeyPair = Some \<lparr>publicKey = ''pub-A'', privateKey = ''key-A''\<rparr>,
     preKeyPair = Some \<lparr>publicKey = ''pub-a'', privateKey = ''key-a''\<rparr>,
     oneTimePreKeys = [\<lparr>publicKey = ''pub-a1'', privateKey = ''key-a1''\<rparr>],
     sessionKeys = Map.empty, instanceCounter = 0\<rparr>"

definition bob :: secureMessaging where
  "bob = \<lparr>identityKeyPair = Some \<lparr>publicKey = ''pub-B'', privateKey = ''key-B''\<rparr>,
     preKeyPair = Some \<lparr>publicKey = ''pub-b'', privateKey = ''key-b''\<rparr>,
     oneTimePreKeys = [\<lparr>publicKey = ''pub-b1'', privateKey = ''key-b1''\<rparr>],
     sessionKeys = Map.empty, instanceCounter = 0\<rparr>"

definition alice_bundle :: registrationBundle where
  "alice_bundle = \<lparr>userId = ''alice'', identityKey = ''pub-A'', preKey = Is_string ''pub-a'',
     bundleOneTimePreKeys = [''pub-a1''], signature = ''pub-a~A''\<rparr>"

definition bob_bundle :: registrationBundle where
  "bob_bundle = \<lparr>userId = ''bob'', identityKey = ''pub-B'', preKey = Is_string ''pub-b'',
     bundleOneTimePreKeys = [''pub-b1''], signature = ''pub-b~B''\<rparr>"

text \<open>An instance whose session has an encryption key that the cipher does not accept.\<close>

definition broken_instance :: secureMessaging where
  "broken_instance = \<lparr>identityKeyPair = None, preKeyPair = None, oneTimePreKeys = [],
     sessionKeys = [''s1'' \<mapsto> sample_session\<lparr>encryptionKey := []\<rparr>], instanceCounter = 0\<rparr>"



section \<open>Facts about the model\<close>

subsection \<open>The methods, one case at a time\<close>

lemma randomBytes_const: "randomBytes n (\<lambda>_. c) = (replicate n c, \<lambda>_. c)"
  by (simp add: randomBytes_def map_replicate_const)

lemma updateChainKey_stored:
  "sessionKeys this sid = Some s \<Longrightarrow>
   updateChainKey P this sid = (Inr (), this\<lparr>sessionKeys := (sessionKeys this)(sid \<mapsto> ratchet P s)\<rparr>)"
  by (simp add: updateChainKey_def)

lemma establishSession_valid:
  assumes "verify P (preKey b) (signature b) (identityKey b) = Inr True"
  shows "establishSession P this rid b g =
    (Inr (to_hex (fst (randomBytes 16 (snd (randomBytes 32 g)))) @ ''-'' @ rid),
     this\<lparr>sessionKeys := (sessionKeys this)
        (to_hex (fst (randomBytes 16 (snd (randomBytes 32 g)))) @ ''-'' @ rid \<mapsto>
          \<lparr>recipientId = rid,
           encryptionKey = fst (deriveKeys P (fst (randomBytes 32 g))),
           macKey = fst (snd (deriveKeys P (fst (randomBytes 32 g)))),
           chainKey = snd (snd (deriveKeys P (fst (randomBytes 32 g)))),
           messageCounter = 0\<rparr>)\<rparr>,
     snd (randomBytes 16 (snd (randomBytes 32 g))))"
  using assms
  by (simp add: establishSession_def generateRandomId_def Let_def split_beta)

lemma establishSession_keys:
  assumes "verify P (preKey b) (signature b) (identityKey b) = Inr True"
  shows "\<exists>sid s g'. establishSession P this rid b g =
            (Inr sid, this\<lparr>sessionKeys := (sessionKeys this)(sid \<mapsto> s)\<rparr>, g')
     \<and> (encryptionKey s, macKey s, chainKey s) = deriveKeys P (fst (randomBytes 32 g))
     \<and> messageCounter s = 0"
  unfolding establishSession_valid [OF assms]
  by (intro exI conjI) (rule refl, simp_all)

lemma encryptMessage_stored:
  assumes "sessionKeys this sid = Some s0"
  shows "encryptMessage P this sid m g =
    (case aes_128_cbc_encrypt P (encryptionKey s0) (fst (randomBytes 16 g)) (utf8_encode P m) of
       None \<Rightarrow> (Inl Library_exception,
                 this\<lparr>sessionKeys := (sessionKeys this)(sid \<mapsto> s0\<lparr>messageCounter := messageCounter s0 + 1\<rparr>)\<rparr>,
                 snd (randomBytes 16 g))
     | Some encrypted \<Rightarrow>
        (Inr \<lparr>sessionId = sid, counter = messageCounter s0 + 1,
              iv = base64_encode P (fst (randomBytes 16 g)),
              ciphertext = base64_encode P encrypted,
              mac = Some (calculateMAC P
                      \<lparr>sessionId = sid, counter = messageCounter s0 + 1,
                       iv = base64_encode P (fst (randomBytes 16 g)),
                       ciphertext = base64_encode P encrypted, mac = None, extra = []\<rparr>
                      (macKey s0)),
              extra = []\<rparr>,
         this\<lparr>sessionKeys := (sessionKeys this)(sid \<mapsto> ratchet P (s0\<lparr>messageCounter := messageCounter s0 + 1\<rparr>))\<rparr>,
         snd (randomBytes 16 g)))"
  using assms
  by (simp add: encryptMessage_def updateChainKey_def Let_def split_beta split: option.splits)

lemma decryptMessage_stored:
  assumes "sessionKeys this (sessionId pkg) = Some s"
  shows "decryptMessage P this pkg =
    (if counter pkg \<le> messageCounter s then (Inl Potential_replay_attack_detected, this)
     else if mac pkg \<noteq> Some (calculateMAC P (pkg\<lparr>mac := None\<rparr>) (macKey s))
       then (Inl Message_authentication_failed, this)
     else case aes_128_cbc_decrypt P (encryptionKey s) (base64_decode P (iv pkg))
                 (base64_decode P (ciphertext pkg)) of
            None \<Rightarrow> (Inl Library_exception, this)
          | Some decrypted \<Rightarrow>
              (Inr (utf8_decode P decrypted),
               this\<lparr>sessionKeys := (sessionKeys this)
                  (sessionId pkg \<mapsto> ratchet P (s\<lparr>messageCounter := counter pkg\<rparr>))\<rparr>))"
  using assms
  by (simp add: decryptMessage_def updateChainKey_def Let_def split: option.splits)

lemma verify_string:
  "verify P (Is_string text) sg key =
     Inr (case rsa_sha256_verify P key sg text of None \<Rightarrow> False | Some b \<Rightarrow> b)"
  by (simp add: verify_def update_argument_def split: option.splits)

lemma encryptMessage_cipher_throws:
  "sessionKeys this sid = Some s \<Longrightarrow>
   aes_128_cbc_encrypt P (encryptionKey s) (fst (randomBytes 16 g)) (utf8_encode P m) = None \<Longrightarrow>
   encryptMessage P this sid m g =
     (Inl Library_exception,
      this\<lparr>sessionKeys := (sessionKeys this)(sid \<mapsto> s\<lparr>messageCounter := messageCounter s + 1\<rparr>)\<rparr>,
      snd (randomBytes 16 g))"
  by (simp add: encryptMessage_stored)

lemma decryptMessage_failure_unchanged:
  "decryptMessage P this pkg = (Inl e, this') \<Longrightarrow> this' = this"
  by (auto simp add: decryptMessage_def updateChainKey_def Let_def split: option.splits if_splits)

lemma encryptMessage_not_found:
  "sessionKeys this sid = None \<Longrightarrow> encryptMessage P this sid m g = (Inl Session_not_found, this, g)"
  by (simp add: encryptMessage_def)



subsection \<open>The small instance\<close>

lemma sample_simps:
  "sha256 sample_crypto = sample_sha256"
  "hmac_sha256 sample_crypto = (\<lambda>k d. sample_sha256 (k @ d))"
  "aes_128_cbc_encrypt sample_crypto = sample_encrypt"
  "aes_128_cbc_decrypt sample_crypto = sample_decrypt"
  "utf8_encode sample_crypto = buffer_from"
  "utf8_decode sample_crypto = to_text"
  "base64_encode sample_crypto = to_text"
  "base64_decode sample_crypto = buffer_from"
  "json_stringify sample_crypto = sample_json"
  by (simp_all add: sample_crypto_def)

lemma length_sample_sha256: "length (sample_sha256 d) = 32"
  by (simp add: sample_sha256_def)


lemma to_text_buffer_from: "to_text (buffer_from s) = s"
proof (induction s)
  case Nil
  show ?case by (simp add: buffer_from_def to_text_def)
next
  case (Cons c cs)
  have "(of_char c :: nat) < 256" by simp
  then have "unat (of_nat (of_char c) :: byte) = of_char c"
    by (simp add: unat_of_nat)
  then have "char_of (unat (of_nat (of_char c) :: byte)) = c"
    by simp
  with Cons show ?case by (simp add: buffer_from_def to_text_def)
qed



lemma sample_decrypt_hi:
  "decryptMessage sample_crypto sample_instance sample_package =
     (Inr ''hi'',
      sample_instance\<lparr>sessionKeys := [''s1'' \<mapsto> ratchet sample_crypto (sample_session\<lparr>messageCounter := 1\<rparr>)]\<rparr>)"
  by (simp add: decryptMessage_stored [where s = sample_session] sample_instance_def sample_session_def
      sample_simps sample_decrypt_def buffer_from_def to_text_def sample_package_def
      calculateMAC_def sample_json_def sample_sha256_def char_of_def bit_0)

lemma sample_bundles_valid:
  "verify sample_crypto (preKey alice_bundle) (signature alice_bundle) (identityKey alice_bundle) = Inr True"
  "verify sample_crypto (preKey bob_bundle) (signature bob_bundle) (identityKey bob_bundle) = Inr True"
  by (simp_all add: verify_string alice_bundle_def bob_bundle_def sample_crypto_def)

lemma sample_registers:
  "register sample_crypto alice ''alice'' = Inr alice_bundle"
  "register sample_crypto bob ''bob'' = Inr bob_bundle"
  by (simp_all add: register_def sign_def update_argument_def alice_def bob_def alice_bundle_def
      bob_bundle_def sample_crypto_def)


section \<open>The claims\<close>

text \<open>
  C1. The claim: two peers that each run \<open>establishSession\<close> with the bundle of the other
  start with the same secret, and so with equal \<open>encryptionKey\<close>, \<open>macKey\<close> and
  \<open>chainKey\<close>. \<open>establishSession\<close> takes the secret from \<open>crypto.randomBytes(32)\<close> on
  each side and uses neither bundle nor any key pair for it. Evaluated for two instances
  with the bundles that \<open>register\<close> gives them, and with random bytes that are all 0 on
  one side and all 1 on the other: both calls succeed, and the keys stored by one side
  differ from the keys stored by the other.
\<close>

theorem establishSession_secrets_differ_counterexample:
  "register sample_crypto alice ''alice'' = Inr alice_bundle
   \<and> register sample_crypto bob ''bob'' = Inr bob_bundle
   \<and> fst (establishSession sample_crypto alice ''bob'' bob_bundle (\<lambda>_. 0))
       = Inr (to_hex (replicate 16 0) @ ''-bob'')
   \<and> map_option (\<lambda>s. (encryptionKey s, macKey s, chainKey s))
       (sessionKeys (fst (snd (establishSession sample_crypto alice ''bob'' bob_bundle (\<lambda>_. 0))))
          (to_hex (replicate 16 0) @ ''-bob''))
       = Some ([110, 111, 105, 116, 112, 121, 114, 99, 110, 101] @ replicate 6 0,
               [99, 97, 109] @ replicate 13 0,
               [110, 105, 97, 104, 99] @ replicate 11 0)
   \<and> fst (establishSession sample_crypto bob ''alice'' alice_bundle (\<lambda>_. 1))
       = Inr (to_hex (replicate 16 1) @ ''-alice'')
   \<and> map_option (\<lambda>s. (encryptionKey s, macKey s, chainKey s))
       (sessionKeys (fst (snd (establishSession sample_crypto bob ''alice'' alice_bundle (\<lambda>_. 1))))
          (to_hex (replicate 16 1) @ ''-alice''))
       = Some ([110, 111, 105, 116, 112, 121, 114, 99, 110, 101] @ replicate 6 1,
               [99, 97, 109] @ replicate 13 1,
               [110, 105, 97, 104, 99] @ replicate 11 1)
   \<and> map_option encryptionKey
       (sessionKeys (fst (snd (establishSession sample_crypto alice ''bob'' bob_bundle (\<lambda>_. 0))))
          (to_hex (replicate 16 0) @ ''-bob''))
     \<noteq> map_option encryptionKey
       (sessionKeys (fst (snd (establishSession sample_crypto bob ''alice'' alice_bundle (\<lambda>_. 1))))
          (to_hex (replicate 16 1) @ ''-alice''))"
  by (simp add: sample_registers establishSession_valid [OF sample_bundles_valid(1)]
      establishSession_valid [OF sample_bundles_valid(2)] randomBytes_const deriveKeys_def
      sample_simps sample_sha256_def slice_def buffer_from_def Let_def)

text \<open>
  C1, as amended. When two peers each run \<open>establishSession\<close> with a validly signed
  bundle of the other, both calls succeed and each adds one session to its instance.
  The keys of each session are what \<open>deriveKeys\<close> makes of the 32 bytes that the random
  source of that side yields, and its counter is 0. The two sessions start with equal
  \<open>encryptionKey\<close>, \<open>macKey\<close> and \<open>chainKey\<close> when the two sides draw the same 32
  bytes.
\<close>

theorem establishSession_keys_from_local_randomness:
  assumes "verify P (preKey bundleB) (signature bundleB) (identityKey bundleB) = Inr True"
    and "verify P (preKey bundleA) (signature bundleA) (identityKey bundleA) = Inr True"
  shows "\<exists>sidA sA gA' sidB sB gB'.
      establishSession P A ridB bundleB gA
        = (Inr sidA, A\<lparr>sessionKeys := (sessionKeys A)(sidA \<mapsto> sA)\<rparr>, gA')
    \<and> establishSession P B ridA bundleA gB
        = (Inr sidB, B\<lparr>sessionKeys := (sessionKeys B)(sidB \<mapsto> sB)\<rparr>, gB')
    \<and> (encryptionKey sA, macKey sA, chainKey sA) = deriveKeys P (fst (randomBytes 32 gA))
    \<and> messageCounter sA = 0
    \<and> (encryptionKey sB, macKey sB, chainKey sB) = deriveKeys P (fst (randomBytes 32 gB))
    \<and> messageCounter sB = 0
    \<and> (fst (randomBytes 32 gA) = fst (randomBytes 32 gB) \<longrightarrow>
         encryptionKey sA = encryptionKey sB \<and> macKey sA = macKey sB \<and> chainKey sA = chainKey sB)"
proof -
  from establishSession_keys [OF assms(1), of A ridB gA] obtain sidA sA gA' where
    a: "establishSession P A ridB bundleB gA
        = (Inr sidA, A\<lparr>sessionKeys := (sessionKeys A)(sidA \<mapsto> sA)\<rparr>, gA')"
    and ka: "(encryptionKey sA, macKey sA, chainKey sA) = deriveKeys P (fst (randomBytes 32 gA))"
    and ca: "messageCounter sA = 0"
    by blast
  from establishSession_keys [OF assms(2), of B ridA gB] obtain sidB sB gB' where
    b: "establishSession P B ridA bundleA gB
        = (Inr sidB, B\<lparr>sessionKeys := (sessionKeys B)(sidB \<mapsto> sB)\<rparr>, gB')"
    and kb: "(encryptionKey sB, macKey sB, chainKey sB) = deriveKeys P (fst (randomBytes 32 gB))"
    and cb: "messageCounter sB = 0"
    by blast
  have eq: "fst (randomBytes 32 gA) = fst (randomBytes 32 gB) \<longrightarrow>
         encryptionKey sA = encryptionKey sB \<and> macKey sA = macKey sB \<and> chainKey sA = chainKey sB"
  proof
    assume "fst (randomBytes 32 gA) = fst (randomBytes 32 gB)"
    with ka kb have "(encryptionKey sA, macKey sA, chainKey sA) = (encryptionKey sB, macKey sB, chainKey sB)"
      by simp
    then show "encryptionKey sA = encryptionKey sB \<and> macKey sA = macKey sB \<and> chainKey sA = chainKey sB"
      by simp
  qed
  from a b ka ca kb cb eq show ?thesis by blast
qed

theorem establishSession_keys_from_local_randomness_witness:
  "verify sample_crypto (preKey bob_bundle) (signature bob_bundle) (identityKey bob_bundle) = Inr True
   \<and> verify sample_crypto (preKey alice_bundle) (signature alice_bundle) (identityKey alice_bundle) = Inr True
   \<and> fst (randomBytes 32 (\<lambda>i. if i < 32 then 7 else 0)) = fst (randomBytes 32 (\<lambda>_. 7))
   \<and> (\<exists>sidA sA gA' sidB sB gB'.
      establishSession sample_crypto alice ''bob'' bob_bundle (\<lambda>i. if i < 32 then 7 else 0)
        = (Inr sidA, alice\<lparr>sessionKeys := (sessionKeys alice)(sidA \<mapsto> sA)\<rparr>, gA')
    \<and> establishSession sample_crypto bob ''alice'' alice_bundle (\<lambda>_. 7)
        = (Inr sidB, bob\<lparr>sessionKeys := (sessionKeys bob)(sidB \<mapsto> sB)\<rparr>, gB')
    \<and> encryptionKey sA = encryptionKey sB \<and> macKey sA = macKey sB \<and> chainKey sA = chainKey sB)"
proof -
  let ?gA = "\<lambda>i::nat. if i < 32 then 7 else (0::byte)"
  let ?gB = "\<lambda>_::nat. 7::byte"
  have same: "fst (randomBytes 32 ?gA) = fst (randomBytes 32 ?gB)"
    by (simp add: randomBytes_def)
  from establishSession_keys_from_local_randomness
    [OF sample_bundles_valid(2) sample_bundles_valid(1), of alice "''bob''" ?gA bob "''alice''" ?gB]
  obtain sidA sA gA' sidB sB gB' where
    "establishSession sample_crypto alice ''bob'' bob_bundle ?gA
        = (Inr sidA, alice\<lparr>sessionKeys := (sessionKeys alice)(sidA \<mapsto> sA)\<rparr>, gA')"
    "establishSession sample_crypto bob ''alice'' alice_bundle ?gB
        = (Inr sidB, bob\<lparr>sessionKeys := (sessionKeys bob)(sidB \<mapsto> sB)\<rparr>, gB')"
    "fst (randomBytes 32 ?gA) = fst (randomBytes 32 ?gB) \<longrightarrow>
         encryptionKey sA = encryptionKey sB \<and> macKey sA = macKey sB \<and> chainKey sA = chainKey sB"
    by blast
  with same have "\<exists>sidA sA gA' sidB sB gB'.
      establishSession sample_crypto alice ''bob'' bob_bundle ?gA
        = (Inr sidA, alice\<lparr>sessionKeys := (sessionKeys alice)(sidA \<mapsto> sA)\<rparr>, gA')
    \<and> establishSession sample_crypto bob ''alice'' alice_bundle ?gB
        = (Inr sidB, bob\<lparr>sessionKeys := (sessionKeys bob)(sidB \<mapsto> sB)\<rparr>, gB')
    \<and> encryptionKey sA = encryptionKey sB \<and> macKey sA = macKey sB \<and> chainKey sA = chainKey sB"
    by blast
  with sample_bundles_valid same show ?thesis by (intro conjI)
qed

text \<open>
  C2. The claim: each ratchet advance takes the new \<open>encryptionKey\<close>, \<open>macKey\<close> and
  \<open>chainKey\<close> from disjoint parts of the output, and the new \<open>chainKey\<close> never equals
  the new \<open>encryptionKey\<close>. \<open>updateChainKey\<close> assigns \<open>newKeyMaterial.slice(0, 16)\<close> to
  both: on the session of the small instance the two fields are the same 16 bytes after
  the call.
\<close>

theorem ratchet_aliases_chain_key_counterexample:
  "map_option (\<lambda>s. (encryptionKey s, macKey s, chainKey s))
     (sessionKeys (snd (updateChainKey sample_crypto sample_instance ''s1'')) ''s1'')
   = Some (replicate 16 3,
           [112, 101, 116, 83, 116, 101, 104, 99, 116, 97, 82] @ replicate 5 0,
           replicate 16 3)"
  by (simp add: updateChainKey_stored [where s = sample_session] sample_instance_def sample_session_def
      ratchet_def sample_simps sample_sha256_def slice_def buffer_from_def)

text \<open>
  C2, as amended. For a stored session, \<open>updateChainKey\<close> computes the HMAC of the
  chain key under the key \<open>RatchetStep\<close>, takes the new \<open>encryptionKey\<close> from bytes 0 to
  15 and the new \<open>macKey\<close> from bytes 16 to 31 of it (when the output has 32 bytes, the two
  keys are its two halves), and sets the new \<open>chainKey\<close> to bytes 0 to 15 again, so that
  the new \<open>chainKey\<close> always equals the new \<open>encryptionKey\<close>. Nothing else in the
  session changes.
\<close>

theorem ratchet_slices:
  assumes "sessionKeys this sid = Some s"
  shows "\<exists>s'. updateChainKey P this sid = (Inr (), this\<lparr>sessionKeys := (sessionKeys this)(sid \<mapsto> s')\<rparr>)
     \<and> encryptionKey s' = take 16 (hmac_sha256 P (buffer_from ''RatchetStep'') (chainKey s))
     \<and> macKey s' = take 16 (drop 16 (hmac_sha256 P (buffer_from ''RatchetStep'') (chainKey s)))
     \<and> chainKey s' = encryptionKey s'
     \<and> recipientId s' = recipientId s \<and> messageCounter s' = messageCounter s
     \<and> (length (hmac_sha256 P (buffer_from ''RatchetStep'') (chainKey s)) = 32 \<longrightarrow>
          encryptionKey s' @ macKey s' = hmac_sha256 P (buffer_from ''RatchetStep'') (chainKey s))"
proof -
  let ?out = "hmac_sha256 P (buffer_from ''RatchetStep'') (chainKey s)"
  have halves: "length ?out = 32 \<longrightarrow> take 16 ?out @ take 16 (drop 16 ?out) = ?out"
  proof
    assume len: "length ?out = 32"
    have "take 16 (drop 16 ?out) = drop 16 ?out" using len by simp
    then show "take 16 ?out @ take 16 (drop 16 ?out) = ?out" by simp
  qed
  show ?thesis
    using assms halves
    by (intro exI [of _ "ratchet P s"]) (simp add: updateChainKey_stored ratchet_def Let_def slice_def)
qed

theorem ratchet_slices_witness:
  "sessionKeys sample_instance ''s1'' = Some sample_session
   \<and> length (hmac_sha256 sample_crypto (buffer_from ''RatchetStep'') (chainKey sample_session)) = 32
   \<and> (\<exists>s'. updateChainKey sample_crypto sample_instance ''s1'' =
          (Inr (), sample_instance\<lparr>sessionKeys := (sessionKeys sample_instance)(''s1'' \<mapsto> s')\<rparr>)
        \<and> chainKey s' = encryptionKey s'
        \<and> encryptionKey s' @ macKey s' =
            hmac_sha256 sample_crypto (buffer_from ''RatchetStep'') (chainKey sample_session))"
proof -
  have h: "sessionKeys sample_instance ''s1'' = Some sample_session"
    by (simp add: sample_instance_def)
  have l: "length (hmac_sha256 sample_crypto (buffer_from ''RatchetStep'') (chainKey sample_session)) = 32"
    by (simp add: sample_simps length_sample_sha256)
  from ratchet_slices [OF h, of sample_crypto] l h show ?thesis
    by auto
qed



text \<open>
  C4. For a stored session and a package whose counter is not greater than the counter of
  the session, \<open>decryptMessage\<close> throws the replay error and the instance is what it was
  before: no field of the session has changed. This holds for any primitives and any
  \<open>mac\<close> field, so it does not depend on a MAC check. In particular, once a package has
  been accepted, submitting it again to the instance that accepted it is rejected in
  this way.
\<close>

theorem replay_rejected:
  "(sessionKeys this (sessionId pkg) = Some s \<and> counter pkg \<le> messageCounter s \<longrightarrow>
      decryptMessage P this pkg = (Inl Potential_replay_attack_detected, this))
   \<and> (decryptMessage P this pkg = (Inr m, this') \<longrightarrow>
      decryptMessage P this' pkg = (Inl Potential_replay_attack_detected, this'))"
proof (intro conjI impI)
  assume "sessionKeys this (sessionId pkg) = Some s \<and> counter pkg \<le> messageCounter s"
  then show "decryptMessage P this pkg = (Inl Potential_replay_attack_detected, this)"
    by (simp add: decryptMessage_stored)
next
  assume ok: "decryptMessage P this pkg = (Inr m, this')"
  then obtain s where s: "sessionKeys this (sessionId pkg) = Some s"
    by (cases "sessionKeys this (sessionId pkg)") (auto simp add: decryptMessage_def)
  from ok have "this' = this\<lparr>sessionKeys := (sessionKeys this)
                  (sessionId pkg \<mapsto> ratchet P (s\<lparr>messageCounter := counter pkg\<rparr>))\<rparr>"
    by (auto simp add: decryptMessage_stored [OF s] split: if_splits option.splits)
  then have "sessionKeys this' (sessionId pkg) = Some (ratchet P (s\<lparr>messageCounter := counter pkg\<rparr>))"
    by simp
  moreover have "messageCounter (ratchet P (s\<lparr>messageCounter := counter pkg\<rparr>)) = counter pkg"
    by (simp add: ratchet_def Let_def)
  ultimately show "decryptMessage P this' pkg = (Inl Potential_replay_attack_detected, this')"
    by (simp add: decryptMessage_stored)
qed

theorem replay_rejected_witness:
  "sessionKeys sample_instance (sessionId (sample_package\<lparr>counter := 0\<rparr>)) = Some sample_session
   \<and> counter (sample_package\<lparr>counter := 0\<rparr>) \<le> messageCounter sample_session
   \<and> decryptMessage sample_crypto sample_instance (sample_package\<lparr>counter := 0\<rparr>)
       = (Inl Potential_replay_attack_detected, sample_instance)
   \<and> fst (decryptMessage sample_crypto sample_instance sample_package) = Inr ''hi''
   \<and> decryptMessage sample_crypto (snd (decryptMessage sample_crypto sample_instance sample_package))
         sample_package
       = (Inl Potential_replay_attack_detected,
          snd (decryptMessage sample_crypto sample_instance sample_package))"
proof -
  let ?old = "sample_package\<lparr>counter := 0\<rparr>"
  let ?after = "snd (decryptMessage sample_crypto sample_instance sample_package)"
  have h1: "sessionKeys sample_instance (sessionId ?old) = Some sample_session
      \<and> counter ?old \<le> messageCounter sample_session"
    by (simp add: sample_instance_def sample_package_def)
  have h2: "decryptMessage sample_crypto sample_instance sample_package = (Inr ''hi'', ?after)"
    by (simp add: sample_decrypt_hi)
  have h3: "fst (decryptMessage sample_crypto sample_instance sample_package) = Inr ''hi''"
    by (simp add: sample_decrypt_hi)
  from replay_rejected [of sample_instance ?old sample_session sample_crypto]
  have old: "decryptMessage sample_crypto sample_instance ?old
       = (Inl Potential_replay_attack_detected, sample_instance)"
    using h1 by blast
  from replay_rejected [of sample_instance sample_package sample_session sample_crypto "''hi''" ?after]
  have again: "decryptMessage sample_crypto ?after sample_package
       = (Inl Potential_replay_attack_detected, ?after)"
    using h2 by blast
  from h1 old h3 again show ?thesis by blast
qed




text \<open>
  C6. The claim: every call of \<open>encryptMessage\<close> or \<open>decryptMessage\<close> that fails leaves
  the session unmodified. \<open>encryptMessage\<close> increments the counter of the session before
  it creates the cipher: when the cipher throws (here on a key it does not accept), the
  call fails and the counter of the stored session has gone from 0 to 1.
\<close>

theorem failed_encrypt_increments_counter_counterexample:
  "map_option messageCounter (sessionKeys broken_instance ''s1'') = Some 0
   \<and> fst (encryptMessage sample_crypto broken_instance ''s1'' ''hi'' (\<lambda>_. 9)) = Inl Library_exception
   \<and> map_option messageCounter
       (sessionKeys (fst (snd (encryptMessage sample_crypto broken_instance ''s1'' ''hi'' (\<lambda>_. 9)))) ''s1'')
       = Some 1"
  by (simp add: encryptMessage_stored [where ?s0.0 = "sample_session\<lparr>encryptionKey := []\<rparr>"]
      broken_instance_def sample_session_def sample_simps sample_encrypt_def)

text \<open>
  C6, as amended. A call of \<open>decryptMessage\<close> that fails, for whatever reason (no session,
  replay, wrong MAC, failure of the cipher), leaves the instance as it was, and so does
  a call of \<open>encryptMessage\<close> that fails because there is no session. The only other
  failure of \<open>encryptMessage\<close> is an exception of the cipher; after it the session has
  its counter incremented by one and is otherwise as it was, keys included.
\<close>

theorem failures_and_the_session:
  "(decryptMessage P this pkg = (Inl e, this') \<longrightarrow> this' = this)
   \<and> (encryptMessage P this sid m g = (Inl e, this', g') \<longrightarrow>
        (case sessionKeys this sid of
           None \<Rightarrow> e = Session_not_found \<and> this' = this
         | Some s \<Rightarrow>
             e = Library_exception
             \<and> this' = this\<lparr>sessionKeys := (sessionKeys this)
                  (sid \<mapsto> s\<lparr>messageCounter := messageCounter s + 1\<rparr>)\<rparr>))"
proof (intro conjI impI)
  assume "decryptMessage P this pkg = (Inl e, this')"
  then show "this' = this" by (rule decryptMessage_failure_unchanged)
next
  assume f: "encryptMessage P this sid m g = (Inl e, this', g')"
  show "case sessionKeys this sid of
           None \<Rightarrow> e = Session_not_found \<and> this' = this
         | Some s \<Rightarrow>
             e = Library_exception
             \<and> this' = this\<lparr>sessionKeys := (sessionKeys this)
                  (sid \<mapsto> s\<lparr>messageCounter := messageCounter s + 1\<rparr>)\<rparr>"
  proof (cases "sessionKeys this sid")
    case None
    with f show ?thesis by (simp add: encryptMessage_not_found)
  next
    case (Some s)
    with f show ?thesis
      by (auto simp add: encryptMessage_stored split: option.splits)
  qed
qed

theorem failures_and_the_session_witness:
  "decryptMessage sample_crypto sample_instance (sample_package\<lparr>counter := 0\<rparr>)
     = (Inl Potential_replay_attack_detected, sample_instance)
   \<and> encryptMessage sample_crypto sample_instance ''s0'' ''hi'' (\<lambda>_. 9)
     = (Inl Session_not_found, sample_instance, \<lambda>_. 9)
   \<and> fst (encryptMessage sample_crypto broken_instance ''s1'' ''hi'' (\<lambda>_. 9)) = Inl Library_exception
   \<and> fst (snd (encryptMessage sample_crypto broken_instance ''s1'' ''hi'' (\<lambda>_. 9)))
     = broken_instance\<lparr>sessionKeys :=
         [''s1'' \<mapsto> sample_session\<lparr>encryptionKey := [], messageCounter := 1\<rparr>]\<rparr>"
proof -
  let ?old = "sample_package\<lparr>counter := 0\<rparr>"
  let ?d = "decryptMessage sample_crypto sample_instance ?old"
  let ?n = "encryptMessage sample_crypto sample_instance ''s0'' ''hi'' (\<lambda>_. 9)"
  let ?b = "encryptMessage sample_crypto broken_instance ''s1'' ''hi'' (\<lambda>_. 9)"
  have s: "sessionKeys sample_instance (sessionId ?old) = Some sample_session"
    by (simp add: sample_instance_def sample_package_def)
  have d1: "fst ?d = Inl Potential_replay_attack_detected"
    by (simp add: decryptMessage_stored [OF s] sample_session_def)
  then have d2: "?d = (Inl Potential_replay_attack_detected, snd ?d)"
    by (metis prod.collapse)
  from failures_and_the_session [of sample_crypto sample_instance ?old
      Potential_replay_attack_detected "snd ?d"] d2
  have d3: "snd ?d = sample_instance" by blast
  have n0: "sessionKeys sample_instance ''s0'' = None"
    by (simp add: sample_instance_def)
  have n1: "fst ?n = Inl Session_not_found" and n1': "snd (snd ?n) = (\<lambda>_. 9)"
    by (simp_all add: encryptMessage_def n0)
  then have n2: "?n = (Inl Session_not_found, fst (snd ?n), snd (snd ?n))"
    by (metis prod.collapse)
  from failures_and_the_session [of sample_crypto sample_instance _ Session_not_found
      "fst (snd ?n)" "''s0''" "''hi''" "\<lambda>_. 9" "snd (snd ?n)"] n2 n0
  have n3: "fst (snd ?n) = sample_instance" by simp
  have b0: "sessionKeys broken_instance ''s1'' = Some (sample_session\<lparr>encryptionKey := []\<rparr>)"
    by (simp add: broken_instance_def)
  have b1: "fst ?b = Inl Library_exception"
    by (simp add: encryptMessage_stored [OF b0] sample_simps sample_encrypt_def)
  then have b2: "?b = (Inl Library_exception, fst (snd ?b), snd (snd ?b))"
    by (metis prod.collapse)
  from failures_and_the_session [of sample_crypto broken_instance _ Library_exception
      "fst (snd ?b)" "''s1''" "''hi''" "\<lambda>_. 9" "snd (snd ?b)"] b2 b0
  have b3: "fst (snd ?b) = broken_instance\<lparr>sessionKeys :=
         [''s1'' \<mapsto> sample_session\<lparr>encryptionKey := [], messageCounter := 1\<rparr>]\<rparr>"
    by (simp add: broken_instance_def sample_session_def)
  from d2 d3 have r1: "?d = (Inl Potential_replay_attack_detected, sample_instance)" by simp
  from n2 n3 n1' have r2: "?n = (Inl Session_not_found, sample_instance, \<lambda>_. 9)" by simp
  from r1 r2 b1 b3 show ?thesis by (intro conjI)
qed



text \<open>
  C8. The claim: \<open>verify\<close> never throws, whatever its arguments. The \<open>try\<close> of \<open>verify\<close>
  encloses \<open>verify.verify\<close> only. For data that is \<open>undefined\<close>, \<open>JSON.stringify\<close>
  returns \<open>undefined\<close> and \<open>verify.update\<close> throws a \<open>TypeError\<close> outside the
  \<open>try\<close>, whatever the signature and the key are; \<open>establishSession\<close> passes the
  exception on for a bundle that has no \<open>preKey\<close>.
\<close>

theorem verify_raises_on_undefined_counterexample:
  "verify sample_crypto (Not_string Json_undefined) ''pub-a~A'' ''pub-A'' = Inl Library_exception
   \<and> establishSession sample_crypto bob ''alice'' (alice_bundle\<lparr>preKey := Not_string Json_undefined\<rparr>)
        (\<lambda>_. 1)
       = (Inl Library_exception, bob, \<lambda>_. 1)"
  by (simp add: establishSession_def verify_def update_argument_def)

text \<open>
  C8, as amended. For data that is a string, as the parameter is documented, or that
  \<open>JSON.stringify\<close> turns into a string, \<open>verify\<close> returns a boolean for every signature
  and every key: the answer of the verification primitive when it gives one, and
  \<open>false\<close> when it throws.
\<close>

theorem verify_fail_closed:
  "verify P (Is_string text) sg key
     = Inr (case rsa_sha256_verify P key sg text of None \<Rightarrow> False | Some b \<Rightarrow> b)
   \<and> verify P (Not_string (Json_text text)) sg key
     = Inr (case rsa_sha256_verify P key sg text of None \<Rightarrow> False | Some b \<Rightarrow> b)"
  by (simp add: verify_def update_argument_def split: option.splits)

text \<open>
  C9. A package for a stored session whose counter is greater than the counter of the
  session, by any amount, is accepted when its MAC is right and the cipher decrypts it.
  The session then has the counter of the package, and apart from the counter it is the
  old session after one ratchet step, whatever the gap was.
\<close>

theorem decrypt_accepts_gap:
  assumes "sessionKeys this (sessionId pkg) = Some s"
    and "messageCounter s < counter pkg"
    and "mac pkg = Some (calculateMAC P (pkg\<lparr>mac := None\<rparr>) (macKey s))"
    and "aes_128_cbc_decrypt P (encryptionKey s) (base64_decode P (iv pkg))
           (base64_decode P (ciphertext pkg)) = Some decrypted"
  shows "decryptMessage P this pkg =
           (Inr (utf8_decode P decrypted),
            this\<lparr>sessionKeys := (sessionKeys this)
               (sessionId pkg \<mapsto> ratchet P (s\<lparr>messageCounter := counter pkg\<rparr>))\<rparr>)
         \<and> messageCounter (ratchet P (s\<lparr>messageCounter := counter pkg\<rparr>)) = counter pkg
         \<and> ratchet P (s\<lparr>messageCounter := counter pkg\<rparr>) = (ratchet P s)\<lparr>messageCounter := counter pkg\<rparr>"
  using assms by (simp add: decryptMessage_stored ratchet_def Let_def)

theorem decrypt_accepts_gap_witness:
  "sessionKeys sample_instance (sessionId gap_package) = Some sample_session
   \<and> messageCounter sample_session = 0 \<and> counter gap_package = 5
   \<and> mac gap_package = Some (calculateMAC sample_crypto (gap_package\<lparr>mac := None\<rparr>) (macKey sample_session))
   \<and> aes_128_cbc_decrypt sample_crypto (encryptionKey sample_session)
        (base64_decode sample_crypto (iv gap_package))
        (base64_decode sample_crypto (ciphertext gap_package)) = Some (buffer_from ''hi'')
   \<and> decryptMessage sample_crypto sample_instance gap_package =
       (Inr ''hi'', sample_instance\<lparr>sessionKeys :=
           [''s1'' \<mapsto> (ratchet sample_crypto sample_session)\<lparr>messageCounter := 5\<rparr>]\<rparr>)"
proof -
  have h1: "sessionKeys sample_instance (sessionId gap_package) = Some sample_session"
    by (simp add: sample_instance_def gap_package_def)
  have h2: "messageCounter sample_session < counter gap_package"
    and h2': "messageCounter sample_session = 0 \<and> counter gap_package = 5"
    by (simp_all add: sample_session_def gap_package_def)
  have h3: "mac gap_package = Some (calculateMAC sample_crypto (gap_package\<lparr>mac := None\<rparr>) (macKey sample_session))"
    by (simp add: gap_package_def sample_session_def calculateMAC_def sample_simps sample_json_def
        sample_sha256_def buffer_from_def to_text_def char_of_def bit_0)
  have h4: "aes_128_cbc_decrypt sample_crypto (encryptionKey sample_session)
        (base64_decode sample_crypto (iv gap_package))
        (base64_decode sample_crypto (ciphertext gap_package)) = Some (buffer_from ''hi'')"
    by (simp add: gap_package_def sample_session_def sample_simps sample_decrypt_def buffer_from_def)
  have t: "to_text (buffer_from ''hi'') = ''hi''" by (rule to_text_buffer_from)
  from decrypt_accepts_gap [OF h1 h2 h3 h4] h1 h2' h3 h4 t
  show ?thesis
    by (simp add: sample_simps sample_instance_def gap_package_def)
qed

text \<open>
  C10. For a bundle with a valid signature, \<open>establishSession\<close> with the same random
  source returns the same result, the same instance and the same remaining random
  source whatever the list of one-time prekeys of the bundle is, the empty list included.
  The call succeeds; the new instance is the old one with one more session, whose keys
  are derived from the 32 random bytes alone and whose counter is 0. No field of the
  instance records a use of a one-time prekey.
\<close>

theorem one_time_prekeys_ignored:
  assumes "verify P (preKey b) (signature b) (identityKey b) = Inr True"
  shows "establishSession P this rid (b\<lparr>bundleOneTimePreKeys := ks\<rparr>) g = establishSession P this rid b g
     \<and> (\<exists>sid g'. establishSession P this rid b g =
           (Inr sid,
            this\<lparr>sessionKeys := (sessionKeys this)(sid \<mapsto>
               \<lparr>recipientId = rid,
                encryptionKey = fst (deriveKeys P (fst (randomBytes 32 g))),
                macKey = fst (snd (deriveKeys P (fst (randomBytes 32 g)))),
                chainKey = snd (snd (deriveKeys P (fst (randomBytes 32 g)))),
                messageCounter = 0\<rparr>)\<rparr>,
            g'))"
proof -
  have same: "verify P (preKey (b\<lparr>bundleOneTimePreKeys := ks\<rparr>)) (signature (b\<lparr>bundleOneTimePreKeys := ks\<rparr>))
           (identityKey (b\<lparr>bundleOneTimePreKeys := ks\<rparr>)) = Inr True"
    using assms by simp
  show ?thesis
    unfolding establishSession_valid [OF assms] establishSession_valid [OF same]
    by blast
qed

theorem one_time_prekeys_ignored_witness:
  "verify sample_crypto (preKey alice_bundle) (signature alice_bundle) (identityKey alice_bundle) = Inr True
   \<and> bundleOneTimePreKeys alice_bundle = [''pub-a1'']
   \<and> establishSession sample_crypto bob ''alice'' (alice_bundle\<lparr>bundleOneTimePreKeys := []\<rparr>) (\<lambda>_. 1)
       = establishSession sample_crypto bob ''alice'' alice_bundle (\<lambda>_. 1)
   \<and> (\<exists>sid. fst (establishSession sample_crypto bob ''alice'' alice_bundle (\<lambda>_. 1)) = Inr sid)"
proof -
  have v: "verify sample_crypto (preKey alice_bundle) (signature alice_bundle) (identityKey alice_bundle) = Inr True"
    by (rule sample_bundles_valid)
  have k: "bundleOneTimePreKeys alice_bundle = [''pub-a1'']"
    by (simp add: alice_bundle_def)
  from one_time_prekeys_ignored [OF v, of bob "''alice''" "[]" "\<lambda>_. 1"] v k
  show ?thesis by auto
qed

end
